theory Spec2Isabelle
  imports Main "HOL-Library.Word"
begin

section \<open>Common Go notions\<close>

text \<open>
  A Go call either returns a value or panics with a message. A Go \<open>error\<close> value is
  modelled by its message; \<open>nil\<close> is \<open>None\<close>.
\<close>

datatype 'a outcome = Returns 'a | Panics string

type_synonym error = string

section \<open>Package registrycenter: the registration controller (registry.go)\<close>

subsection \<open>Data\<close>

text \<open>
  \<open>spec.ServiceInstanceSpec\<close>, with the fields registry.go reads and writes. \<open>Port\<close> is a
  \<open>uint32\<close>; \<open>Labels\<close> is a \<open>map[string]string\<close>, kept as an association list.
\<close>

record ServiceInstanceSpec =
  ServiceName :: string
  InstanceID :: string
  IP :: string
  Port :: "32 word"
  Labels :: "(string \<times> string) list"
  Status :: string
  RegistryTime :: string

text \<open>
  \<open>spec.Service\<close>: \<open>Register\<close> reads \<open>RegisterTenant\<close> and \<open>Sidecar.IngressPort\<close> (a Go
  \<open>int\<close>) only.
\<close>

record Service =
  RegisterTenant :: string
  IngressPort :: int

text \<open>
  The \<open>Server\<close> struct. \<open>done_closed\<close> says whether the channel \<open>done\<close> has been closed.
  The field \<open>IP\<close> of the struct is \<open>serverIP\<close> here, since the instance record has an
  \<open>IP\<close> of its own. The \<open>mutex\<close> shows as the events \<open>EvLock\<close> and \<open>EvUnlock\<close> of the
  trace; the \<open>service\<close> handle is the store of the environment (\<open>env\<close> below).
\<close>

record Server =
  RegistryType :: string
  registered :: bool
  serviceName :: string
  instanceID :: string
  serverIP :: string
  port :: int
  tenant :: string
  serviceLabels :: "(string \<times> string) list"
  done_closed :: bool

text \<open>
  \<open>ReadyFunc\<close> is \<open>func() bool\<close>, a closure over state the controller does not see: it
  is modelled by its answers, \<open>f n\<close> being what the call number \<open>n\<close> (from 0) does.
\<close>

type_synonym ReadyFunc = "nat \<Rightarrow> bool outcome"

text \<open>
  A wall-clock reading, as \<open>time.Now()\<close> gives it, and Go's
  \<open>Format(time.RFC3339)\<close>, layout \<open>2006-01-02T15:04:05Z07:00\<close>: the standard library's
  \<open>appendInt\<close> pads with zeros to a width and writes a sign for a negative number; the
  zone is \<open>Z\<close> for offset 0 and a signed \<open>hh:mm\<close> otherwise.
\<close>

record Time =
  t_year :: int
  t_month :: nat
  t_day :: nat
  t_hour :: nat
  t_min :: nat
  t_sec :: nat
  t_offset :: int

definition digit :: "nat \<Rightarrow> char" where
  "digit n = char_of (48 + n)"

fun decimal :: "nat \<Rightarrow> string" where
  "decimal n = (if n < 10 then [digit n] else decimal (n div 10) @ [digit (n mod 10)])"

declare decimal.simps [simp del]

definition appendInt :: "int \<Rightarrow> nat \<Rightarrow> string" where
  "appendInt x width =
     (let u = nat \<bar>x\<bar>; ds = decimal u
      in (if x < 0 then ''-'' else '''') @ replicate (width - length ds) CHR ''0'' @ ds)"

definition format_zone :: "int \<Rightarrow> string" where
  "format_zone offset =
     (if offset = 0 then ''Z''
      else (let zone = \<bar>offset\<bar> div 60
            in (if offset < 0 \<and> zone \<noteq> 0 then ''-'' else ''+'')
               @ appendInt (zone div 60) 2 @ '':'' @ appendInt (zone mod 60) 2))"

definition Format_RFC3339 :: "Time \<Rightarrow> string" where
  "Format_RFC3339 t =
     appendInt (t_year t) 4 @ ''-'' @ appendInt (int (t_month t)) 2 @ ''-''
     @ appendInt (int (t_day t)) 2 @ ''T'' @ appendInt (int (t_hour t)) 2 @ '':''
     @ appendInt (int (t_min t)) 2 @ '':'' @ appendInt (int (t_sec t)) 2
     @ format_zone (t_offset t)"

text \<open>
  Modelled from the spec: the constant \<open>spec.SerivceStatusUp\<close> is declared outside the
  given sources; the spec gives its value, "up".
\<close>

definition SerivceStatusUp :: string where
  "SerivceStatusUp = ''up''"

text \<open>Go's \<open>time.Second\<close>, in nanoseconds.\<close>

definition Second :: int where
  "Second = 1000000000"

subsection \<open>Effects\<close>

text \<open>What the controller does to the world, in the order it does it.\<close>

datatype log_entry =
    LogNotReady bool bool
  | LogOriginal ServiceInstanceSpec ServiceInstanceSpec
  | LogSucc string string int
  | LogRecover string

datatype event =
    EvLock
  | EvUnlock
  | EvSleep int
  | EvIngressReady
  | EvEgressReady
  | EvGet string string
  | EvPut ServiceInstanceSpec
  | EvLog log_entry

text \<open>
  The background task \<open>go rcs.register(ins, ingressReady, egressReady)\<close>: its
  arguments, its local \<open>tryTimes\<close>, and how often each closure has been called.
\<close>

record task =
  ins :: ServiceInstanceSpec
  ingressReady :: ReadyFunc
  egressReady :: ReadyFunc
  tryTimes :: int
  ingressCalls :: nat
  egressCalls :: nat

text \<open>
  What the world outside answers during one iteration of the loop: the two methods of
  \<open>service.Service\<close> (declared outside the given sources, so taken as parameters; the
  call \<open>PutServiceInstanceSpec(ins)\<close> is a statement, so whatever it returns is dropped)
  and the clock.
\<close>

record env =
  GetServiceInstanceSpec :: "string \<Rightarrow> string \<Rightarrow> ServiceInstanceSpec option outcome"
  PutServiceInstanceSpec :: "ServiceInstanceSpec \<Rightarrow> error option outcome"
  now :: Time

text \<open>The state one attempt works on.\<close>

record st =
  srv :: Server
  tsk :: task
  evs :: "event list"

definition emit :: "event \<Rightarrow> st \<Rightarrow> st" where
  "emit e s = s\<lparr>evs := evs s @ [e]\<rparr>"

definition callIngress :: "st \<Rightarrow> bool outcome \<times> st" where
  "callIngress s =
     (ingressReady (tsk s) (ingressCalls (tsk s)),
      emit EvIngressReady (s\<lparr>tsk := (tsk s)\<lparr>ingressCalls := Suc (ingressCalls (tsk s))\<rparr>\<rparr>))"

definition callEgress :: "st \<Rightarrow> bool outcome \<times> st" where
  "callEgress s =
     (egressReady (tsk s) (egressCalls (tsk s)),
      emit EvEgressReady (s\<lparr>tsk := (tsk s)\<lparr>egressCalls := Suc (egressCalls (tsk s))\<rparr>\<rparr>))"

subsection \<open>Operations\<close>

definition NewRegistryCenterServer ::
  "string \<Rightarrow> string \<Rightarrow> string \<Rightarrow> int \<Rightarrow> string \<Rightarrow> (string \<times> string) list \<Rightarrow> Server" where
  "NewRegistryCenterServer registryType sName ip p instID labels =
     \<lparr>RegistryType = registryType, registered = False, serviceName = sName,
      instanceID = instID, serverIP = ip, port = p, tenant = '''',
      serviceLabels = labels, done_closed = False\<rparr>"

definition Registered :: "Server \<Rightarrow> bool" where
  "Registered rcs = registered rcs"

text \<open>\<open>close(rcs.done)\<close>: closing a closed channel panics.\<close>

definition Close :: "Server \<Rightarrow> Server outcome" where
  "Close rcs =
     (if done_closed rcs then Panics ''close of closed channel''
      else Returns (rcs\<lparr>done_closed := True\<rparr>))"

text \<open>
  \<open>Register\<close> returns the controller and the task it has started, if any.
  \<open>uint32(...)\<close> keeps the low 32 bits.
\<close>

definition Register :: "Server \<Rightarrow> Service \<Rightarrow> ReadyFunc \<Rightarrow> ReadyFunc \<Rightarrow> Server \<times> task option" where
  "Register rcs0 serviceSpec ingress egress =
     (let rcs = rcs0\<lparr>tenant := RegisterTenant serviceSpec\<rparr>
      in if Registered rcs then (rcs, None)
         else (rcs, Some \<lparr>ins = \<lparr>ServiceName = serviceName rcs, InstanceID = instanceID rcs,
                                  IP = serverIP rcs,
                                  Port = word_of_int (IngressPort serviceSpec),
                                  Labels = serviceLabels rcs, Status = '''',
                                  RegistryTime = ''''\<rparr>,
                            ingressReady = ingress, egressReady = egress, tryTimes = 0,
                            ingressCalls = 0, egressCalls = 0\<rparr>))"

definition needUpdateRecord :: "ServiceInstanceSpec option \<Rightarrow> ServiceInstanceSpec \<Rightarrow> bool" where
  "needUpdateRecord originIns i =
     (case originIns of
        None \<Rightarrow> True
      | Some origin \<Rightarrow> if IP origin \<noteq> IP i \<or> Port origin \<noteq> Port i then True else False)"

text \<open>
  The body of the closure \<open>routine\<close>, without its deferred function, in four parts:
  \<open>attempt\<close> is the whole of it. The first component of a result is the panic in flight
  when the body is left, if any.
\<close>

text \<open>
  Line 128, the log line of the gate: it calls both closures once more, for its
  arguments.
\<close>

definition logNotReady :: "st \<Rightarrow> string option \<times> st" where
  "logNotReady s =
     (case callIngress s of
        (Panics p, s1) \<Rightarrow> (Some p, s1)
      | (Returns a, s1) \<Rightarrow>
          (case callEgress s1 of
             (Panics p, s2) \<Rightarrow> (Some p, s2)
           | (Returns b, s2) \<Rightarrow> (None, emit (EvLog (LogNotReady a b)) s2)))"

text \<open>Lines 140 to 144: stamp the record, set the flag, write, log.\<close>

definition putRecord :: "env \<Rightarrow> st \<Rightarrow> string option \<times> st" where
  "putRecord e s =
     (let i = (ins (tsk s))\<lparr>Status := SerivceStatusUp, RegistryTime := Format_RFC3339 (now e)\<rparr>;
          s1 = s\<lparr>tsk := (tsk s)\<lparr>ins := i\<rparr>, srv := (srv s)\<lparr>registered := True\<rparr>\<rparr>;
          s2 = emit (EvPut i) s1
      in case PutServiceInstanceSpec e i of
           Panics p \<Rightarrow> (Some p, s2)
         | Returns _ \<Rightarrow>
             (None, emit (EvLog (LogSucc (ServiceName i) (InstanceID i) (tryTimes (tsk s2)))) s2))"

text \<open>Lines 132 to 138, then \<open>putRecord\<close>.\<close>

definition readRecord :: "env \<Rightarrow> st \<Rightarrow> string option \<times> st" where
  "readRecord e s =
     (let s1 = emit (EvGet (serviceName (srv s)) (instanceID (srv s))) s
      in case GetServiceInstanceSpec e (serviceName (srv s)) (instanceID (srv s)) of
           Panics p \<Rightarrow> (Some p, s1)
         | Returns None \<Rightarrow> putRecord e s1
         | Returns (Some originIns) \<Rightarrow>
             (let s2 = emit (EvLog (LogOriginal originIns (ins (tsk s1)))) s1
              in if \<not> needUpdateRecord (Some originIns) (ins (tsk s2))
                 then (None, s2\<lparr>srv := (srv s2)\<lparr>registered := True\<rparr>\<rparr>)
                 else putRecord e s2))"

text \<open>
  Lines 126 to 130, then \<open>readRecord\<close>. \<open>||\<close> is lazy: \<open>egressReady\<close> is called only when
  \<open>ingressReady\<close> has returned true.
\<close>

definition attempt :: "env \<Rightarrow> st \<Rightarrow> string option \<times> st" where
  "attempt e s0 =
     (let s = s0\<lparr>tsk := (tsk s0)\<lparr>tryTimes := tryTimes (tsk s0) + 1\<rparr>\<rparr>
      in case callIngress s of
           (Panics p, s1) \<Rightarrow> (Some p, s1)
         | (Returns False, s1) \<Rightarrow> logNotReady s1
         | (Returns True, s1) \<Rightarrow>
             (case callEgress s1 of
                (Panics p, s2) \<Rightarrow> (Some p, s2)
              | (Returns False, s2) \<Rightarrow> logNotReady s2
              | (Returns True, s2) \<Rightarrow> readRecord e s2))"

text \<open>
  \<open>routine\<close>: the body under its deferred function, which recovers a panic and logs it.
  A panic that were not recovered would leave \<open>routine\<close> as \<open>Some\<close>.
\<close>

definition routine :: "env \<Rightarrow> st \<Rightarrow> string option \<times> st" where
  "routine e s =
     (case attempt e s of
        (Some err, s1) \<Rightarrow> (None, emit (EvLog (LogRecover err)) s1)
      | (None, s1) \<Rightarrow> (None, s1))"

text \<open>
  One iteration of the \<open>for\<close> loop of \<open>register\<close>. A \<open>select\<close> with a \<open>default\<close> takes the
  \<open>done\<close> case exactly when the channel is closed. A panic leaving \<open>routine\<close> would end
  the goroutine, and the process with it.
\<close>

datatype flow = Continue | ReturnDone | ReturnRegistered | Crash string

definition iteration :: "env \<Rightarrow> st \<Rightarrow> flow \<times> st" where
  "iteration e s =
     (if done_closed (srv s) then (ReturnDone, s)
      else (let s1 = emit EvLock s
            in if registered (srv s1) then (ReturnRegistered, emit EvUnlock s1)
               else (case routine e s1 of
                       (Some p, s2) \<Rightarrow> (Crash p, s2)
                     | (None, s2) \<Rightarrow> (Continue, emit EvUnlock (emit (EvSleep (1 * Second)) s2)))))"

text \<open>
  The loop, run against the answers of the world for its successive iterations. When the
  answers run out the task is still looping (\<open>Continue\<close>).
\<close>

fun register :: "env list \<Rightarrow> st \<Rightarrow> flow \<times> st" where
  "register [] s = (Continue, s)"
| "register (e # es) s =
     (case iteration e s of
        (Continue, s1) \<Rightarrow> register es s1
      | (f, s1) \<Rightarrow> (f, s1))"

text \<open>The store writes and the store reads of a trace.\<close>

fun writes :: "event list \<Rightarrow> ServiceInstanceSpec list" where
  "writes [] = []"
| "writes (EvPut i # tr) = i # writes tr"
| "writes (_ # tr) = writes tr"

fun reads :: "event list \<Rightarrow> (string \<times> string) list" where
  "reads [] = []"
| "reads (EvGet n i # tr) = (n, i) # reads tr"
| "reads (_ # tr) = reads tr"

subsection \<open>A controller, its callers and its tasks\<close>

text \<open>
  The controller with every task \<open>Register\<close> has started on it; a task that is still
  looping has the flow \<open>Continue\<close>. The callers and the tasks interleave: an action is a
  call of a method, or one iteration of the loop of one task (iterations of two tasks
  never overlap, each holding the mutex from \<open>EvLock\<close> to \<open>EvUnlock\<close>).
\<close>

record world =
  w_srv :: Server
  w_tasks :: "(flow \<times> task) list"
  w_evs :: "event list"

datatype action =
    CallRegister Service ReadyFunc ReadyFunc
  | CallRegistered
  | CallClose
  | Iterate nat env

fun step :: "action \<Rightarrow> world \<Rightarrow> world outcome" where
  "step (CallRegister serviceSpec ingress egress) w =
     (case Register (w_srv w) serviceSpec ingress egress of
        (rcs, None) \<Rightarrow> Returns (w\<lparr>w_srv := rcs\<rparr>)
      | (rcs, Some t) \<Rightarrow> Returns (w\<lparr>w_srv := rcs, w_tasks := w_tasks w @ [(Continue, t)]\<rparr>))"
| "step CallRegistered w = Returns w"
| "step CallClose w =
     (case Close (w_srv w) of
        Panics p \<Rightarrow> Panics p
      | Returns rcs \<Rightarrow> Returns (w\<lparr>w_srv := rcs\<rparr>))"
| "step (Iterate k e) w =
     (if k < length (w_tasks w) \<and> fst (w_tasks w ! k) = Continue
      then (case iteration e \<lparr>srv = w_srv w, tsk = snd (w_tasks w ! k), evs = w_evs w\<rparr> of
              (f, s) \<Rightarrow> Returns \<lparr>w_srv = srv s, w_tasks = (w_tasks w)[k := (f, tsk s)],
                                  w_evs = evs s\<rparr>)
      else Returns w)"

text \<open>The states a sequence of actions goes through, up to the first panic of a caller.\<close>

fun states :: "action list \<Rightarrow> world \<Rightarrow> world list" where
  "states [] w = [w]"
| "states (a # as) w =
     (case step a w of
        Panics p \<Rightarrow> [w]
      | Returns w1 \<Rightarrow> w # states as w1)"

text \<open>The state a sequence of actions ends in, or the panic of the caller it stops at.\<close>

fun run :: "action list \<Rightarrow> world \<Rightarrow> world outcome" where
  "run [] w = Returns w"
| "run (a # as) w =
     (case step a w of
        Panics p \<Rightarrow> Panics p
      | Returns w1 \<Rightarrow> run as w1)"

text \<open>A controller as its constructor leaves it, with no task and nothing done yet.\<close>

definition fresh :: "Server \<Rightarrow> world" where
  "fresh rcs = \<lparr>w_srv = rcs, w_tasks = [], w_evs = []\<rparr>"

text \<open>
  The state of an attempt once both gates have answered true: one more try, one more call
  of each closure.
\<close>

definition gated :: "st \<Rightarrow> st" where
  "gated s = s\<lparr>tsk := (tsk s)\<lparr>tryTimes := tryTimes (tsk s) + 1,
                                 ingressCalls := Suc (ingressCalls (tsk s)),
                                 egressCalls := Suc (egressCalls (tsk s))\<rparr>,
               evs := evs s @ [EvIngressReady, EvEgressReady]\<rparr>"

text \<open>The tasks a sequence of actions leaves started; none is counted after a panic.\<close>

definition tasksStarted :: "world outcome \<Rightarrow> nat" where
  "tasksStarted r = (case r of Returns w \<Rightarrow> length (w_tasks w) | Panics p \<Rightarrow> 0)"

text \<open>A sequence of calls of \<open>Register\<close>, each with its arguments.\<close>

definition callsOf :: "(Service \<times> ReadyFunc \<times> ReadyFunc) list \<Rightarrow> action list" where
  "callsOf cs = map (\<lambda>(serviceSpec, ingress, egress). CallRegister serviceSpec ingress egress) cs"

section \<open>Package storage: the facade over the cluster\<close>

subsection \<open>Data\<close>

text \<open>
  The package \<open>cluster\<close> is outside the given sources: its interfaces \<open>Mutex\<close> and
  \<open>Cluster\<close> are taken as parameters, records of operations on a cluster state \<open>'c\<close>. A Go
  result \<open>(T, error)\<close> is a pair; a pointer, interface or error that may be \<open>nil\<close> is an
  option.
\<close>

record 'c Mutex =
  mutexLock :: "'c \<Rightarrow> error option \<times> 'c"
  mutexUnlock :: "'c \<Rightarrow> error option \<times> 'c"

text \<open>\<open>mvccpb.KeyValue\<close> of etcd.\<close>

record KeyValue =
  kvKey :: string
  kvCreateRevision :: int
  kvModRevision :: int
  kvVersion :: int
  kvValue :: string
  kvLease :: int

typedecl Syncer

record 'c Cluster =
  clsMutex :: "string \<Rightarrow> 'c \<Rightarrow> ('c Mutex option \<times> error option) \<times> 'c"
  clsGet :: "string \<Rightarrow> 'c \<Rightarrow> (string option \<times> error option) \<times> 'c"
  clsGetPrefix :: "string \<Rightarrow> 'c \<Rightarrow> ((string \<times> string) list \<times> error option) \<times> 'c"
  clsGetRaw :: "string \<Rightarrow> 'c \<Rightarrow> (KeyValue option \<times> error option) \<times> 'c"
  clsGetRawPrefix :: "string \<Rightarrow> 'c \<Rightarrow> ((string \<times> KeyValue) list \<times> error option) \<times> 'c"
  clsPut :: "string \<Rightarrow> string \<Rightarrow> 'c \<Rightarrow> error option \<times> 'c"
  clsPutUnderLease :: "string \<Rightarrow> string \<Rightarrow> 'c \<Rightarrow> error option \<times> 'c"
  clsPutAndDelete :: "(string \<times> string option) list \<Rightarrow> 'c \<Rightarrow> error option \<times> 'c"
  clsPutAndDeleteUnderLease :: "(string \<times> string option) list \<Rightarrow> 'c \<Rightarrow> error option \<times> 'c"
  clsDelete :: "string \<Rightarrow> 'c \<Rightarrow> error option \<times> 'c"
  clsDeletePrefix :: "string \<Rightarrow> 'c \<Rightarrow> error option \<times> 'c"
  clsSyncer :: "int \<Rightarrow> 'c \<Rightarrow> (Syncer option \<times> error option) \<times> 'c"

text \<open>The struct \<open>clusterStorage\<close>; its \<open>mutex\<close> is \<open>nil\<close> until one has been created.\<close>

record 'c clusterStorage =
  name :: string
  cls :: "'c Cluster"
  mutex :: "'c Mutex option"

text \<open>
  What the methods work on: the facade behind the pointer \<open>cs\<close>, the state of the cluster,
  and the lines written with \<open>logger.Errorf\<close>.
\<close>

record 'c sstate =
  facade :: "'c clusterStorage"
  cluster :: 'c
  errlog :: "string list"

text \<open>Go's \<open>time.Minute\<close>, in nanoseconds.\<close>

definition Minute :: int where
  "Minute = 60 * Second"

subsection \<open>Operations\<close>

definition mutexGoReady :: "'c sstate \<Rightarrow> error option \<times> 'c sstate" where
  "mutexGoReady s =
     (if mutex (facade s) \<noteq> None then (None, s)
      else (case clsMutex (cls (facade s)) (name (facade s)) (cluster s) of
              ((m, Some err), c1) \<Rightarrow>
                (Some (''create mutex for '' @ name (facade s) @ '' failed: '' @ err),
                 s\<lparr>cluster := c1\<rparr>)
            | ((m, None), c1) \<Rightarrow>
                (None, s\<lparr>facade := (facade s)\<lparr>mutex := m\<rparr>, cluster := c1\<rparr>)))"

text \<open>
  \<open>New\<close> has no error result: it returns the facade on both branches, and only logs what
  \<open>mutexGoReady\<close> reports.
\<close>

definition New :: "string \<Rightarrow> 'c Cluster \<Rightarrow> 'c \<Rightarrow> 'c sstate" where
  "New nm c c0 =
     (let s = \<lparr>facade = \<lparr>name = nm, cls = c, mutex = None\<rparr>, cluster = c0, errlog = []\<rparr>
      in case mutexGoReady s of
           (Some err, s1) \<Rightarrow> s1\<lparr>errlog := errlog s1 @ [err]\<rparr>
         | (None, s1) \<Rightarrow> s1)"

text \<open>Calling a method of the \<open>nil\<close> interface value panics.\<close>

definition Lock :: "'c sstate \<Rightarrow> error option outcome \<times> 'c sstate" where
  "Lock s =
     (case mutexGoReady s of
        (Some err, s1) \<Rightarrow> (Returns (Some err), s1)
      | (None, s1) \<Rightarrow>
          (case mutex (facade s1) of
             None \<Rightarrow> (Panics ''invalid memory address or nil pointer dereference'', s1)
           | Some m \<Rightarrow>
               (case mutexLock m (cluster s1) of (r, c1) \<Rightarrow> (Returns r, s1\<lparr>cluster := c1\<rparr>))))"

definition Unlock :: "'c sstate \<Rightarrow> error option outcome \<times> 'c sstate" where
  "Unlock s =
     (case mutexGoReady s of
        (Some err, s1) \<Rightarrow> (Returns (Some err), s1)
      | (None, s1) \<Rightarrow>
          (case mutex (facade s1) of
             None \<Rightarrow> (Panics ''invalid memory address or nil pointer dereference'', s1)
           | Some m \<Rightarrow>
               (case mutexUnlock m (cluster s1) of (r, c1) \<Rightarrow> (Returns r, s1\<lparr>cluster := c1\<rparr>))))"

text \<open>Every other method hands its arguments to the cluster and its result back.\<close>

definition delegate :: "('c \<Rightarrow> 'r \<times> 'c) \<Rightarrow> 'c sstate \<Rightarrow> 'r \<times> 'c sstate" where
  "delegate f s = (case f (cluster s) of (r, c1) \<Rightarrow> (r, s\<lparr>cluster := c1\<rparr>))"

definition Get :: "string \<Rightarrow> 'c sstate \<Rightarrow> (string option \<times> error option) \<times> 'c sstate" where
  "Get key s = delegate (clsGet (cls (facade s)) key) s"

definition GetPrefix ::
  "string \<Rightarrow> 'c sstate \<Rightarrow> ((string \<times> string) list \<times> error option) \<times> 'c sstate" where
  "GetPrefix prefix s = delegate (clsGetPrefix (cls (facade s)) prefix) s"

definition Put :: "string \<Rightarrow> string \<Rightarrow> 'c sstate \<Rightarrow> error option \<times> 'c sstate" where
  "Put key v s = delegate (clsPut (cls (facade s)) key v) s"

definition PutUnderLease :: "string \<Rightarrow> string \<Rightarrow> 'c sstate \<Rightarrow> error option \<times> 'c sstate" where
  "PutUnderLease key v s = delegate (clsPutUnderLease (cls (facade s)) key v) s"

definition PutAndDelete ::
  "(string \<times> string option) list \<Rightarrow> 'c sstate \<Rightarrow> error option \<times> 'c sstate" where
  "PutAndDelete kvs s = delegate (clsPutAndDelete (cls (facade s)) kvs) s"

definition PutAndDeleteUnderLease ::
  "(string \<times> string option) list \<Rightarrow> 'c sstate \<Rightarrow> error option \<times> 'c sstate" where
  "PutAndDeleteUnderLease kvs s = delegate (clsPutAndDeleteUnderLease (cls (facade s)) kvs) s"

definition Delete :: "string \<Rightarrow> 'c sstate \<Rightarrow> error option \<times> 'c sstate" where
  "Delete key s = delegate (clsDelete (cls (facade s)) key) s"

definition DeletePrefix :: "string \<Rightarrow> 'c sstate \<Rightarrow> error option \<times> 'c sstate" where
  "DeletePrefix prefix s = delegate (clsDeletePrefix (cls (facade s)) prefix) s"

definition GetRaw :: "string \<Rightarrow> 'c sstate \<Rightarrow> (KeyValue option \<times> error option) \<times> 'c sstate" where
  "GetRaw key s = delegate (clsGetRaw (cls (facade s)) key) s"

definition GetRawPrefix ::
  "string \<Rightarrow> 'c sstate \<Rightarrow> ((string \<times> KeyValue) list \<times> error option) \<times> 'c sstate" where
  "GetRawPrefix prefix s = delegate (clsGetRawPrefix (cls (facade s)) prefix) s"

definition Syncer :: "'c sstate \<Rightarrow> (Syncer option \<times> error option) \<times> 'c sstate" where
  "Syncer s = delegate (clsSyncer (cls (facade s)) Minute) s"

section \<open>Example inputs\<close>

text \<open>
  The instance of the end-to-end scenario: service "orders", instance "i-1", address
  10.0.0.5:8080, both gates ready, and the task \<open>Register\<close> starts for it.
\<close>

definition ordersServer :: Server where
  "ordersServer =
     NewRegistryCenterServer ''eureka'' ''orders'' ''10.0.0.5'' 8080 ''i-1'' [(''version'', ''v1'')]"

definition ordersSpec :: Service where
  "ordersSpec = \<lparr>RegisterTenant = ''tenant-a'', IngressPort = 8080\<rparr>"

definition ready :: ReadyFunc where
  "ready = (\<lambda>n. Returns True)"

definition notReady :: ReadyFunc where
  "notReady = (\<lambda>n. Returns False)"

text \<open>A gate whose first call panics and whose later calls answer true.\<close>

definition faultyOnce :: ReadyFunc where
  "faultyOnce = (\<lambda>n. if n = 0 then Panics ''runtime error: index out of range'' else Returns True)"

definition ordersIns :: ServiceInstanceSpec where
  "ordersIns = \<lparr>ServiceName = ''orders'', InstanceID = ''i-1'', IP = ''10.0.0.5'', Port = 8080,
                Labels = [(''version'', ''v1'')], Status = [], RegistryTime = []\<rparr>"

definition ordersTask :: "ReadyFunc \<Rightarrow> ReadyFunc \<Rightarrow> task" where
  "ordersTask ingress egress =
     \<lparr>ins = ordersIns, ingressReady = ingress, egressReady = egress, tryTimes = 0,
      ingressCalls = 0, egressCalls = 0\<rparr>"

definition ordersSt :: "ReadyFunc \<Rightarrow> ReadyFunc \<Rightarrow> st" where
  "ordersSt ingress egress =
     \<lparr>srv = ordersServer\<lparr>tenant := ''tenant-a''\<rparr>, tsk = ordersTask ingress egress, evs = []\<rparr>"

definition noon :: Time where
  "noon = \<lparr>t_year = 2021, t_month = 3, t_day = 9, t_hour = 12, t_min = 0, t_sec = 5,
           t_offset = 0\<rparr>"

text \<open>The same task on a controller that is registered already.\<close>

definition registeredSt :: st where
  "registeredSt = \<lparr>srv = ordersServer\<lparr>registered := True\<rparr>, tsk = ordersTask ready ready, evs = []\<rparr>"

text \<open>A store with no record, whose writes succeed.\<close>

definition emptyStore :: env where
  "emptyStore = \<lparr>GetServiceInstanceSpec = (\<lambda>n i. Returns None),
                 PutServiceInstanceSpec = (\<lambda>i. Returns None), now = noon\<rparr>"

text \<open>A store that holds the instance at the same address, under other labels.\<close>

definition sameAddress :: env where
  "sameAddress =
     \<lparr>GetServiceInstanceSpec =
        (\<lambda>n i. Returns (Some (ordersIns\<lparr>Labels := [(''version'', ''v0'')], Status := ''up'',
                                        RegistryTime := ''2021-03-08T09:00:00Z''\<rparr>))),
      PutServiceInstanceSpec = (\<lambda>i. Returns None), now = noon\<rparr>"

text \<open>A store with no record, whose writes fail: with a panic, or with an error returned.\<close>

definition panickingStore :: env where
  "panickingStore = \<lparr>GetServiceInstanceSpec = (\<lambda>n i. Returns None),
                     PutServiceInstanceSpec = (\<lambda>i. Panics ''etcdserver: request timed out''),
                     now = noon\<rparr>"

definition failingStore :: env where
  "failingStore = \<lparr>GetServiceInstanceSpec = (\<lambda>n i. Returns None),
                   PutServiceInstanceSpec = (\<lambda>i. Returns (Some ''etcdserver: request timed out'')),
                   now = noon\<rparr>"

text \<open>
  Two clusters, their state being the number of calls of \<open>Mutex\<close> so far: \<open>steady\<close>
  always creates the mutex, \<open>flaky\<close> fails the first time.
\<close>

definition okMutex :: "nat Mutex" where
  "okMutex = \<lparr>mutexLock = (\<lambda>c. (None, c)), mutexUnlock = (\<lambda>c. (None, c))\<rparr>"

definition steady :: "nat Cluster" where
  "steady =
     \<lparr>clsMutex = (\<lambda>nm c. ((Some okMutex, None), Suc c)),
      clsGet = (\<lambda>k c. ((Some ''v'', None), c)),
      clsGetPrefix = (\<lambda>k c. (([(k, ''v'')], None), c)),
      clsGetRaw = (\<lambda>k c. ((None, None), c)),
      clsGetRawPrefix = (\<lambda>k c. (([], None), c)),
      clsPut = (\<lambda>k v c. (None, c)),
      clsPutUnderLease = (\<lambda>k v c. (None, c)),
      clsPutAndDelete = (\<lambda>kvs c. (None, c)),
      clsPutAndDeleteUnderLease = (\<lambda>kvs c. (None, c)),
      clsDelete = (\<lambda>k c. (None, c)),
      clsDeletePrefix = (\<lambda>k c. (None, c)),
      clsSyncer = (\<lambda>d c. ((None, Some ''no syncer''), c))\<rparr>"

definition flaky :: "nat Cluster" where
  "flaky = steady\<lparr>clsMutex :=
             (\<lambda>nm c. (if c = 0 then (None, Some ''etcd is not ready'') else (Some okMutex, None),
                       Suc c))\<rparr>"

text \<open>A cluster that never creates the mutex, and a facade that has no mutex yet.\<close>

definition down :: "nat Cluster" where
  "down = steady\<lparr>clsMutex := (\<lambda>nm c. ((None, Some ''etcd is not ready''), Suc c))\<rparr>"

definition coldFacade :: "nat Cluster \<Rightarrow> nat sstate" where
  "coldFacade c = \<lparr>facade = \<lparr>name = ''mesh'', cls = c, mutex = None\<rparr>, cluster = 0, errlog = []\<rparr>"

section \<open>Properties of the registration controller\<close>

subsection \<open>Traces and timestamps\<close>

lemma decimal_nonempty: "decimal n \<noteq> []"
  by (subst decimal.simps) simp

lemma appendInt_nonempty: "appendInt x w \<noteq> []"
  by (simp add: appendInt_def Let_def decimal_nonempty)

lemma Format_RFC3339_nonempty: "Format_RFC3339 t \<noteq> []"
  by (simp add: Format_RFC3339_def appendInt_nonempty)

lemma Format_RFC3339_noon: "Format_RFC3339 noon = ''2021-03-09T12:00:05Z''"
  by code_simp

text \<open>
  For a clock reading in UTC with a four-digit year the timestamp has the twenty
  characters of RFC 3339, \<open>yyyy-mm-ddThh:mm:ssZ\<close>.
\<close>

lemma decimal_length: "n < 10 ^ Suc k \<Longrightarrow> length (decimal n) \<le> Suc k"
proof (induction k arbitrary: n)
  case 0
  then show ?case by (subst decimal.simps) simp
next
  case (Suc k)
  show ?case
  proof (cases "n < 10")
    case True
    then show ?thesis by (subst decimal.simps) simp
  next
    case False
    from Suc.prems have "n div 10 < 10 ^ Suc k" by (simp add: less_mult_imp_div_less)
    from Suc.IH[OF this] False show ?thesis by (subst decimal.simps) simp
  qed
qed

lemma appendInt_length:
  assumes "0 \<le> x" and "x < 10 ^ Suc k"
  shows "length (appendInt x (Suc k)) = Suc k"
proof -
  have "nat \<bar>x\<bar> < 10 ^ Suc k" using assms by (simp add: nat_less_iff)
  from decimal_length[OF this] assms(1) show ?thesis
    by (simp add: appendInt_def Let_def)
qed

lemma Format_RFC3339_shape:
  assumes "0 \<le> t_year t" "t_year t < 10000" "t_month t < 100" "t_day t < 100"
    "t_hour t < 100" "t_min t < 100" "t_sec t < 100" "t_offset t = 0"
  shows "length (Format_RFC3339 t) = 20 \<and> Format_RFC3339 t ! 4 = CHR ''-'' \<and>
         Format_RFC3339 t ! 7 = CHR ''-'' \<and> Format_RFC3339 t ! 10 = CHR ''T'' \<and>
         Format_RFC3339 t ! 13 = CHR '':'' \<and> Format_RFC3339 t ! 16 = CHR '':'' \<and>
         Format_RFC3339 t ! 19 = CHR ''Z''"
proof -
  have y: "length (appendInt (t_year t) 4) = 4"
    using appendInt_length[of "t_year t" 3] assms(1,2) by (simp add: eval_nat_numeral)
  have two: "length (appendInt (int n) 2) = 2" if "n < 100" for n
    using appendInt_length[of "int n" 1] that by (simp add: eval_nat_numeral)
  note l = y two[OF assms(3)] two[OF assms(4)] two[OF assms(5)] two[OF assms(6)] two[OF assms(7)]
  show ?thesis
    using l by (simp add: Format_RFC3339_def format_zone_def assms(8) nth_append)
qed

lemma writes_append: "writes (tr @ tr') = writes tr @ writes tr'"
  by (induction tr rule: writes.induct) auto

lemma reads_append: "reads (tr @ tr') = reads tr @ reads tr'"
  by (induction tr rule: reads.induct) auto

subsection \<open>The stages of one attempt\<close>

lemma logNotReady_frame:
  "srv (snd (logNotReady s)) = srv s \<and> ins (tsk (snd (logNotReady s))) = ins (tsk s) \<and>
   reads (evs (snd (logNotReady s))) = reads (evs s) \<and>
   writes (evs (snd (logNotReady s))) = writes (evs s)"
  by (simp add: logNotReady_def callIngress_def callEgress_def emit_def reads_append
      writes_append split: outcome.splits)

lemma putRecord_effect:
  "registered (srv (snd (putRecord e s))) \<and>
   writes (evs (snd (putRecord e s))) =
     writes (evs s) @ [(ins (tsk s))\<lparr>Status := SerivceStatusUp,
                                      RegistryTime := Format_RFC3339 (now e)\<rparr>]"
  by (simp add: putRecord_def emit_def Let_def writes_append split: outcome.splits)

lemma readRecord_effect:
  assumes "GetServiceInstanceSpec e (serviceName (srv s)) (instanceID (srv s)) = Returns prior"
  shows "registered (srv (snd (readRecord e s))) \<and>
   writes (evs (snd (readRecord e s))) =
     writes (evs s) @ (if needUpdateRecord prior (ins (tsk s))
                       then [(ins (tsk s))\<lparr>Status := SerivceStatusUp,
                                              RegistryTime := Format_RFC3339 (now e)\<rparr>]
                       else [])"
  using assms
  by (cases prior)
     (simp_all add: readRecord_def Let_def emit_def putRecord_effect writes_append
        needUpdateRecord_def)

lemma readRecord_keeps_registered:
  "registered (srv s) \<Longrightarrow> registered (srv (snd (readRecord e s)))"
  by (simp add: readRecord_def Let_def emit_def putRecord_effect
      split: outcome.splits option.splits)

lemma attempt_ready:
  assumes "ingressReady (tsk s) (ingressCalls (tsk s)) = Returns True"
    and "egressReady (tsk s) (egressCalls (tsk s)) = Returns True"
  shows "attempt e s = readRecord e (gated s)"
  using assms by (simp add: attempt_def callIngress_def callEgress_def emit_def gated_def)

lemma attempt_not_ready:
  assumes "ingressReady (tsk s) (ingressCalls (tsk s)) = Returns False
         \<or> egressReady (tsk s) (egressCalls (tsk s)) = Returns False"
  shows "srv (snd (attempt e s)) = srv s \<and> ins (tsk (snd (attempt e s))) = ins (tsk s) \<and>
         reads (evs (snd (attempt e s))) = reads (evs s) \<and>
         writes (evs (snd (attempt e s))) = writes (evs s)"
  using assms
  by (auto simp: attempt_def callIngress_def callEgress_def emit_def logNotReady_frame
      Let_def reads_append writes_append split: outcome.splits bool.splits)

lemma routine_recovers: "fst (routine e s) = None"
  by (simp add: routine_def split: prod.splits option.splits)

lemma routine_pair: "routine e s = (None, snd (routine e s))"
  using routine_recovers[of e s] by (cases "routine e s") simp

lemma routine_frame:
  "srv (snd (routine e s)) = srv (snd (attempt e s)) \<and>
   tsk (snd (routine e s)) = tsk (snd (attempt e s)) \<and>
   reads (evs (snd (routine e s))) = reads (evs (snd (attempt e s))) \<and>
   writes (evs (snd (routine e s))) = writes (evs (snd (attempt e s)))"
  by (simp add: routine_def emit_def reads_append writes_append split: prod.splits option.splits)

subsection \<open>One iteration of the loop\<close>

lemma iteration_registered:
  "registered (srv s) \<Longrightarrow>
   iteration e s = (if done_closed (srv s) then (ReturnDone, s)
                    else (ReturnRegistered, emit EvUnlock (emit EvLock s)))"
  by (simp add: iteration_def emit_def Let_def)

lemma iteration_done: "done_closed (srv s) \<Longrightarrow> iteration e s = (ReturnDone, s)"
  by (simp add: iteration_def)

lemma iteration_attempt:
  "\<not> done_closed (srv s) \<Longrightarrow> \<not> registered (srv s) \<Longrightarrow>
   iteration e s =
     (Continue, emit EvUnlock (emit (EvSleep (1 * Second)) (snd (routine e (emit EvLock s)))))"
  by (subst iteration_def, subst routine_pair) (simp add: emit_def Let_def)

lemma iteration_never_crashes: "fst (iteration e s) \<noteq> Crash q"
  by (subst iteration_def, subst routine_pair) (simp add: Let_def)

lemma iteration_sets_flag:
  assumes "\<not> done_closed (srv s)" and "\<not> registered (srv s)"
    and "ingressReady (tsk s) (ingressCalls (tsk s)) = Returns True"
    and "egressReady (tsk s) (egressCalls (tsk s)) = Returns True"
    and "GetServiceInstanceSpec e (serviceName (srv s)) (instanceID (srv s)) = Returns prior"
  shows "fst (iteration e s) = Continue \<and> registered (srv (snd (iteration e s)))"
proof -
  let ?s = "emit EvLock s"
  have a: "attempt e ?s = readRecord e (gated ?s)"
    using assms(3,4) by (intro attempt_ready) (simp_all add: emit_def)
  have "GetServiceInstanceSpec e (serviceName (srv (gated ?s))) (instanceID (srv (gated ?s)))
          = Returns prior"
    using assms(5) by (simp add: gated_def emit_def)
  from readRecord_effect[OF this] have "registered (srv (snd (routine e ?s)))"
    by (simp add: routine_frame a)
  then show ?thesis
    by (simp add: iteration_attempt[OF assms(1,2)] emit_def)
qed

lemma iteration_sleeps_locked:
  assumes "\<not> done_closed (srv s)" and "\<not> registered (srv s)"
  shows "evs (snd (iteration e s))
           = evs (snd (routine e (emit EvLock s))) @ [EvSleep (1 * Second), EvUnlock]"
  by (simp add: iteration_attempt[OF assms] emit_def)

subsection \<open>Calls of Register\<close>

lemma step_register_unregistered:
  "\<not> registered (w_srv w) \<Longrightarrow>
   \<exists>w'. step (CallRegister sp i g) w = Returns w' \<and> \<not> registered (w_srv w') \<and>
        length (w_tasks w') = Suc (length (w_tasks w))"
  by (simp add: Register_def Registered_def Let_def)

lemma run_register_calls:
  "\<not> registered (w_srv w) \<Longrightarrow>
   tasksStarted (run (callsOf cs) w) = length (w_tasks w) + length cs"
proof (induction cs arbitrary: w)
  case Nil
  then show ?case by (simp add: callsOf_def tasksStarted_def)
next
  case (Cons c cs)
  obtain sp i g where c: "c = (sp, i, g)" by (cases c) auto
  from step_register_unregistered[OF Cons.prems, of sp i g]
  obtain w' where w': "step (CallRegister sp i g) w = Returns w'" "\<not> registered (w_srv w')"
    "length (w_tasks w') = Suc (length (w_tasks w))" by blast
  have "run (callsOf (c # cs)) w = run (callsOf cs) w'"
    using w'(1) by (simp add: callsOf_def c)
  with Cons.IH[OF w'(2)] w'(3) show ?case by simp
qed

lemma fresh_orders: "\<not> registered (w_srv (fresh ordersServer))" "w_tasks (fresh ordersServer) = []"
  by (simp_all add: fresh_def ordersServer_def NewRegistryCenterServer_def)

subsection \<open>The flag never falls back\<close>

lemma step_keeps_registered:
  assumes "registered (w_srv w)" and "step a w = Returns w'"
  shows "registered (w_srv w')"
proof (cases a)
  case (CallRegister sp i g)
  with assms show ?thesis
    by (auto simp: Register_def Registered_def Let_def)
next
  case CallRegistered
  with assms show ?thesis by simp
next
  case CallClose
  with assms show ?thesis by (auto simp: Close_def split: if_splits)
next
  case (Iterate k e)
  with assms show ?thesis
    by (auto simp: iteration_registered emit_def split: if_splits)
qed

lemma states_keep_registered:
  "registered (w_srv w) \<Longrightarrow> \<forall>w' \<in> set (states acts w). registered (w_srv w')"
proof (induction acts arbitrary: w)
  case Nil
  then show ?case by simp
next
  case (Cons a acts)
  show ?case
  proof (cases "step a w")
    case (Returns w1)
    with Cons.prems have "registered (w_srv w1)" by (auto dest: step_keeps_registered)
    with Cons.IH[of w1] Cons.prems Returns show ?thesis by simp
  next
    case (Panics p)
    with Cons.prems show ?thesis by simp
  qed
qed

lemma states_sorted: "sorted (map (\<lambda>w. registered (w_srv w)) (states acts w))"
proof (induction acts arbitrary: w)
  case Nil
  then show ?case by simp
next
  case (Cons a acts)
  show ?case
  proof (cases "step a w")
    case (Returns w1)
    show ?thesis
    proof (cases "registered (w_srv w)")
      case True
      with Returns have "registered (w_srv w1)" by (auto dest: step_keeps_registered)
      then have "\<forall>w' \<in> set (states acts w1). registered (w_srv w')"
        by (rule states_keep_registered)
      with Cons.IH[of w1] Returns show ?thesis by simp
    next
      case False
      with Cons.IH[of w1] Returns show ?thesis by simp
    qed
  next
    case (Panics p)
    then show ?thesis by simp
  qed
qed

subsection \<open>The example inputs\<close>

lemma ordersSt_simps:
  "srv (ordersSt i g) = ordersServer\<lparr>tenant := ''tenant-a''\<rparr>"
  "ins (tsk (ordersSt i g)) = ordersIns"
  "ingressReady (tsk (ordersSt i g)) = i"
  "egressReady (tsk (ordersSt i g)) = g"
  "ingressCalls (tsk (ordersSt i g)) = 0"
  "egressCalls (tsk (ordersSt i g)) = 0"
  "evs (ordersSt i g) = []"
  by (simp_all add: ordersSt_def ordersTask_def)

subsection \<open>The claims\<close>

text \<open>
  C1. In one attempt whose two gates both answer true and whose read of the store
  answers \<open>prior\<close>: the flag \<open>registered\<close> is true afterwards; if \<open>prior\<close> is absent, or
  differs from the desired record in \<open>IP\<close> or \<open>Port\<close>, the attempt issues exactly one
  write, of a record with the desired \<open>IP\<close> and \<open>Port\<close>, the status "up" and the
  non-empty RFC 3339 time of the clock; if \<open>prior\<close> has the same \<open>IP\<close> and \<open>Port\<close>,
  whatever its labels, the attempt issues no write.
\<close>

theorem attempt_registers:
  assumes "ingressReady (tsk s) (ingressCalls (tsk s)) = Returns True"
    and "egressReady (tsk s) (egressCalls (tsk s)) = Returns True"
    and "GetServiceInstanceSpec e (serviceName (srv s)) (instanceID (srv s)) = Returns prior"
  shows "registered (srv (snd (routine e s))) \<and>
     (if prior = None \<or> (\<exists>origin. prior = Some origin \<and>
            (IP origin \<noteq> IP (ins (tsk s)) \<or> Port origin \<noteq> Port (ins (tsk s))))
      then \<exists>w. writes (evs (snd (routine e s))) = writes (evs s) @ [w] \<and>
               IP w = IP (ins (tsk s)) \<and> Port w = Port (ins (tsk s)) \<and> Status w = ''up'' \<and>
               RegistryTime w = Format_RFC3339 (now e) \<and> RegistryTime w \<noteq> []
      else writes (evs (snd (routine e s))) = writes (evs s))"
proof -
  have g: "GetServiceInstanceSpec e (serviceName (srv (gated s))) (instanceID (srv (gated s)))
           = Returns prior"
    using assms(3) by (simp add: gated_def)
  have a: "attempt e s = readRecord e (gated s)"
    using assms(1,2) by (rule attempt_ready)
  have w: "writes (evs (gated s)) = writes (evs s)" and i: "ins (tsk (gated s)) = ins (tsk s)"
    by (simp_all add: gated_def writes_append)
  have n: "needUpdateRecord prior (ins (tsk s)) \<longleftrightarrow>
           (prior = None \<or> (\<exists>origin. prior = Some origin \<and>
            (IP origin \<noteq> IP (ins (tsk s)) \<or> Port origin \<noteq> Port (ins (tsk s)))))"
    by (cases prior) (simp_all add: needUpdateRecord_def)
  show ?thesis
    using readRecord_effect[OF g] n
    by (simp add: routine_frame a w i Format_RFC3339_nonempty SerivceStatusUp_def)
qed

theorem attempt_registers_witness:
  "ingressReady (tsk (ordersSt ready ready)) (ingressCalls (tsk (ordersSt ready ready)))
     = Returns True \<and>
   egressReady (tsk (ordersSt ready ready)) (egressCalls (tsk (ordersSt ready ready)))
     = Returns True \<and>
   GetServiceInstanceSpec emptyStore ''orders'' ''i-1'' = Returns None \<and>
   registered (srv (snd (routine emptyStore (ordersSt ready ready)))) \<and>
   (\<exists>w. writes (evs (snd (routine emptyStore (ordersSt ready ready)))) = [w] \<and>
        IP w = ''10.0.0.5'' \<and> Port w = 8080 \<and> Status w = ''up'' \<and>
        RegistryTime w = ''2021-03-09T12:00:05Z'') \<and>
   registered (srv (snd (routine sameAddress (ordersSt ready ready)))) \<and>
   writes (evs (snd (routine sameAddress (ordersSt ready ready)))) = []"
proof -
  let ?s = "ordersSt ready ready"
  have h1: "ingressReady (tsk ?s) (ingressCalls (tsk ?s)) = Returns True"
    and h2: "egressReady (tsk ?s) (egressCalls (tsk ?s)) = Returns True"
    by (simp_all add: ordersSt_simps ready_def)
  have k: "serviceName (srv ?s) = ''orders''" "instanceID (srv ?s) = ''i-1''"
    by (simp_all add: ordersSt_simps ordersServer_def NewRegistryCenterServer_def)
  have h3: "GetServiceInstanceSpec emptyStore (serviceName (srv ?s)) (instanceID (srv ?s))
            = Returns None"
    by (simp add: emptyStore_def)
  have h4: "GetServiceInstanceSpec sameAddress (serviceName (srv ?s)) (instanceID (srv ?s))
            = Returns (Some (ordersIns\<lparr>Labels := [(''version'', ''v0'')], Status := ''up'',
                                         RegistryTime := ''2021-03-08T09:00:00Z''\<rparr>))"
    by (simp add: sameAddress_def)
  have n: "now emptyStore = noon" by (simp add: emptyStore_def)
  show ?thesis
    using attempt_registers[OF h1 h2 h3] attempt_registers[OF h1 h2 h4] h1 h2
    by (auto simp: ordersSt_simps k n Format_RFC3339_noon ordersIns_def emptyStore_def)
qed

text \<open>
  C4. Gate-blocking: when a gate answers false, the attempt reads nothing from the store
  and writes nothing to it, and leaves the controller as it was; \<open>registered\<close> stays
  false.
\<close>

theorem gate_blocking:
  assumes "ingressReady (tsk s) (ingressCalls (tsk s)) = Returns False
         \<or> egressReady (tsk s) (egressCalls (tsk s)) = Returns False"
  shows "fst (routine e s) = None \<and> srv (snd (routine e s)) = srv s \<and>
         ins (tsk (snd (routine e s))) = ins (tsk s) \<and>
         reads (evs (snd (routine e s))) = reads (evs s) \<and>
         writes (evs (snd (routine e s))) = writes (evs s) \<and>
         (\<not> registered (srv s) \<longrightarrow> \<not> registered (srv (snd (routine e s))))"
  using attempt_not_ready[OF assms] by (simp add: routine_recovers routine_frame)

theorem gate_blocking_witness:
  "(ingressReady (tsk (ordersSt ready notReady)) (ingressCalls (tsk (ordersSt ready notReady)))
      = Returns False \<or>
    egressReady (tsk (ordersSt ready notReady)) (egressCalls (tsk (ordersSt ready notReady)))
      = Returns False) \<and>
   srv (snd (routine emptyStore (ordersSt ready notReady))) = srv (ordersSt ready notReady) \<and>
   reads (evs (snd (routine emptyStore (ordersSt ready notReady)))) = [] \<and>
   writes (evs (snd (routine emptyStore (ordersSt ready notReady)))) = [] \<and>
   \<not> registered (srv (snd (routine emptyStore (ordersSt ready notReady))))"
proof -
  let ?s = "ordersSt ready notReady"
  have h: "ingressReady (tsk ?s) (ingressCalls (tsk ?s)) = Returns False \<or>
           egressReady (tsk ?s) (egressCalls (tsk ?s)) = Returns False"
    by (simp add: ordersSt_simps notReady_def)
  have r: "\<not> registered (srv ?s)"
    by (simp add: ordersSt_simps ordersServer_def NewRegistryCenterServer_def)
  show ?thesis
    using gate_blocking[OF h, of emptyStore] h r by (simp add: ordersSt_simps)
qed

text \<open>
  C2. Along any sequence of calls and iterations the flag \<open>registered\<close> never goes from
  true back to false, so it rises at most once; and once it is true, an iteration of the
  loop returns at once, reading and writing nothing.
\<close>

theorem registered_monotonic:
  "sorted (map (\<lambda>w. registered (w_srv w)) (states acts w)) \<and>
   (registered (srv s) \<longrightarrow>
      (fst (iteration e s) = ReturnRegistered \<or> fst (iteration e s) = ReturnDone) \<and>
      srv (snd (iteration e s)) = srv s \<and>
      reads (evs (snd (iteration e s))) = reads (evs s) \<and>
      writes (evs (snd (iteration e s))) = writes (evs s) \<and>
      register (e # es) s = iteration e s)"
  by (simp add: states_sorted iteration_registered emit_def reads_append writes_append)

theorem registered_monotonic_witness:
  "registered (srv registeredSt) \<and>
   fst (iteration emptyStore registeredSt) = ReturnRegistered \<and>
   reads (evs (snd (iteration emptyStore registeredSt))) = [] \<and>
   writes (evs (snd (iteration emptyStore registeredSt))) = [] \<and>
   fst (register [emptyStore, emptyStore] registeredSt) = ReturnRegistered"
proof -
  have r: "registered (srv registeredSt)" by (simp add: registeredSt_def)
  have d: "\<not> done_closed (srv registeredSt)"
    by (simp add: registeredSt_def ordersServer_def NewRegistryCenterServer_def)
  have e: "evs registeredSt = []" by (simp add: registeredSt_def)
  from registered_monotonic[of "[]" "fresh ordersServer" registeredSt emptyStore "[emptyStore]"] r
  have "(fst (iteration emptyStore registeredSt) = ReturnRegistered \<or>
         fst (iteration emptyStore registeredSt) = ReturnDone) \<and>
        reads (evs (snd (iteration emptyStore registeredSt))) = reads (evs registeredSt) \<and>
        writes (evs (snd (iteration emptyStore registeredSt))) = writes (evs registeredSt) \<and>
        register [emptyStore, emptyStore] registeredSt = iteration emptyStore registeredSt"
    by blast
  moreover have "fst (iteration emptyStore registeredSt) \<noteq> ReturnDone"
    using r d by (simp add: iteration_registered)
  ultimately show ?thesis using r by (simp add: e)
qed

text \<open>
  C3, as the code has it. Each call of \<open>Register\<close> on a controller that is not registered
  starts one more task, so \<open>n\<close> such calls start \<open>n\<close> tasks; on a registered controller
  \<open>Register\<close> starts no task and changes nothing but \<open>tenant\<close>.
\<close>

theorem register_starts_a_task_per_call:
  "(\<not> registered (w_srv w) \<longrightarrow>
      tasksStarted (run (callsOf cs) w) = length (w_tasks w) + length cs) \<and>
   (registered rcs \<longrightarrow>
      Register rcs serviceSpec ingress egress = (rcs\<lparr>tenant := RegisterTenant serviceSpec\<rparr>, None))"
  by (simp add: run_register_calls Register_def Registered_def Let_def)

theorem register_starts_a_task_per_call_witness:
  "\<not> registered (w_srv (fresh ordersServer)) \<and>
   tasksStarted (run (callsOf [(ordersSpec, ready, ready), (ordersSpec, notReady, ready),
                               (ordersSpec, ready, ready)]) (fresh ordersServer)) = 3 \<and>
   registered (srv registeredSt) \<and>
   Register (srv registeredSt) ordersSpec ready ready
     = ((srv registeredSt)\<lparr>tenant := ''tenant-a''\<rparr>, None)"
proof -
  have r: "registered (srv registeredSt)" by (simp add: registeredSt_def)
  show ?thesis
    using register_starts_a_task_per_call[of "fresh ordersServer"
        "[(ordersSpec, ready, ready), (ordersSpec, notReady, ready), (ordersSpec, ready, ready)]"
        "srv registeredSt" ordersSpec ready ready] r
    by (simp add: fresh_orders ordersSpec_def)
qed

text \<open>
  C3, as the claim has it, fails: two calls of \<open>Register\<close> on a new controller, before
  any iteration has run, start two tasks, not at most one.
\<close>

theorem register_twice_starts_two_tasks:
  "\<not> tasksStarted (run [CallRegister ordersSpec ready ready, CallRegister ordersSpec ready ready]
                      (fresh ordersServer)) \<le> 1"
  by (simp add: tasksStarted_def Register_def Registered_def Let_def fresh_def ordersServer_def
      NewRegistryCenterServer_def)

text \<open>
  C5 fails on the code. The store holds no record and the write fails, by a panic or by
  an error returned: the flag is true after that iteration all the same, the next
  iteration returns as registered, and the failed write stays the only one. (By
  \<open>iteration_sets_flag\<close> the flag is set whatever \<open>PutServiceInstanceSpec\<close> answers.)
\<close>

theorem failed_write_leaves_registered:
  "registered (srv (snd (iteration panickingStore (ordersSt ready ready)))) \<and>
   fst (register [panickingStore, emptyStore] (ordersSt ready ready)) = ReturnRegistered \<and>
   writes (evs (snd (register [panickingStore, emptyStore] (ordersSt ready ready))))
     = [ordersIns\<lparr>Status := ''up'', RegistryTime := ''2021-03-09T12:00:05Z''\<rparr>] \<and>
   registered (srv (snd (iteration failingStore (ordersSt ready ready)))) \<and>
   fst (register [failingStore, emptyStore] (ordersSt ready ready)) = ReturnRegistered \<and>
   writes (evs (snd (register [failingStore, emptyStore] (ordersSt ready ready))))
     = [ordersIns\<lparr>Status := ''up'', RegistryTime := ''2021-03-09T12:00:05Z''\<rparr>]"
  by code_simp

text \<open>
  C6 fails on the code. In an iteration that runs an attempt the sleep of one second
  comes before the unlock: the mutex is held while the loop sleeps. (By
  \<open>iteration_sleeps_locked\<close> this is so in every such iteration.)
\<close>

theorem sleep_before_unlock:
  "evs (snd (iteration emptyStore (ordersSt ready notReady)))
     = [EvLock, EvIngressReady, EvEgressReady, EvIngressReady, EvEgressReady,
        EvLog (LogNotReady True False), EvSleep 1000000000, EvUnlock]"
  by code_simp

text \<open>
  C7. \<open>Close\<close> on an open channel closes it; a second \<open>Close\<close> panics; after \<open>Close\<close> the
  next iteration of the loop returns at its first check, with no lock taken, no attempt
  and no event, and so does the loop; and \<open>Close\<close> on a registered controller whose
  channel is still open returns, changing nothing but the channel.
\<close>

theorem close_cancels:
  "(\<not> done_closed rcs \<longrightarrow> Close rcs = Returns (rcs\<lparr>done_closed := True\<rparr>)) \<and>
   (Close rcs = Returns rcs' \<longrightarrow>
      Close rcs' = Panics ''close of closed channel'' \<and>
      iteration e \<lparr>srv = rcs', tsk = t, evs = tr\<rparr> = (ReturnDone, \<lparr>srv = rcs', tsk = t, evs = tr\<rparr>) \<and>
      register (e # es) \<lparr>srv = rcs', tsk = t, evs = tr\<rparr>
        = (ReturnDone, \<lparr>srv = rcs', tsk = t, evs = tr\<rparr>)) \<and>
   (registered (w_srv w) \<and> \<not> done_closed (w_srv w) \<longrightarrow>
      step CallClose w = Returns (w\<lparr>w_srv := (w_srv w)\<lparr>done_closed := True\<rparr>\<rparr>))"
  by (auto simp: Close_def iteration_done split: if_splits)

theorem close_cancels_witness:
  "\<not> done_closed ordersServer \<and>
   Close ordersServer = Returns (ordersServer\<lparr>done_closed := True\<rparr>) \<and>
   Close (ordersServer\<lparr>done_closed := True\<rparr>) = Panics ''close of closed channel'' \<and>
   register [emptyStore, emptyStore]
     \<lparr>srv = ordersServer\<lparr>done_closed := True\<rparr>, tsk = ordersTask ready ready, evs = []\<rparr>
     = (ReturnDone, \<lparr>srv = ordersServer\<lparr>done_closed := True\<rparr>, tsk = ordersTask ready ready,
                     evs = []\<rparr>) \<and>
   registered (w_srv (fresh (srv registeredSt))) \<and>
   \<not> done_closed (w_srv (fresh (srv registeredSt))) \<and>
   step CallClose (fresh (srv registeredSt))
     = Returns ((fresh (srv registeredSt))\<lparr>w_srv := (srv registeredSt)\<lparr>done_closed := True\<rparr>\<rparr>)"
proof -
  have d: "\<not> done_closed ordersServer"
    by (simp add: ordersServer_def NewRegistryCenterServer_def)
  have c: "Close ordersServer = Returns (ordersServer\<lparr>done_closed := True\<rparr>)"
    using close_cancels[of ordersServer] d by blast
  have r: "registered (w_srv (fresh (srv registeredSt))) \<and>
           \<not> done_closed (w_srv (fresh (srv registeredSt)))"
    using d by (simp add: fresh_def registeredSt_def)
  show ?thesis
    using close_cancels[of ordersServer "ordersServer\<lparr>done_closed := True\<rparr>" emptyStore
        "ordersTask ready ready" "[]" "[emptyStore]" "fresh (srv registeredSt)"] c d r
    by (simp add: fresh_def)
qed

text \<open>
  C8. Fault containment: no iteration ends the goroutine with a panic; when the attempt
  panics, \<open>routine\<close> still returns, the panic is logged, the iteration sleeps, unlocks and
  continues, and the loop goes on with its next iteration.
\<close>

theorem fault_contained:
  "(\<forall>q. fst (iteration e s) \<noteq> Crash q) \<and>
   (\<not> done_closed (srv s) \<and> \<not> registered (srv s) \<and> fst (attempt e (emit EvLock s)) = Some p \<longrightarrow>
      fst (routine e (emit EvLock s)) = None \<and>
      fst (iteration e s) = Continue \<and>
      evs (snd (iteration e s)) =
        evs (snd (attempt e (emit EvLock s))) @ [EvLog (LogRecover p), EvSleep (1 * Second), EvUnlock] \<and>
      register (e # es) s = register es (snd (iteration e s)))"
proof -
  have "evs (snd (routine e (emit EvLock s))) = evs (snd (attempt e (emit EvLock s))) @ [EvLog (LogRecover p)]"
    if "fst (attempt e (emit EvLock s)) = Some p"
    using that by (cases "attempt e (emit EvLock s)") (simp add: routine_def emit_def)
  then show ?thesis
    by (simp add: iteration_never_crashes iteration_attempt routine_recovers emit_def)
qed

theorem fault_contained_witness:
  "\<not> done_closed (srv (ordersSt faultyOnce ready)) \<and>
   \<not> registered (srv (ordersSt faultyOnce ready)) \<and>
   fst (attempt emptyStore (emit EvLock (ordersSt faultyOnce ready)))
     = Some ''runtime error: index out of range'' \<and>
   fst (iteration emptyStore (ordersSt faultyOnce ready)) = Continue \<and>
   register [emptyStore, emptyStore, emptyStore] (ordersSt faultyOnce ready)
     = register [emptyStore, emptyStore] (snd (iteration emptyStore (ordersSt faultyOnce ready))) \<and>
   fst (register [emptyStore, emptyStore, emptyStore] (ordersSt faultyOnce ready))
     = ReturnRegistered"
proof -
  let ?s = "ordersSt faultyOnce ready"
  have h: "\<not> done_closed (srv ?s) \<and> \<not> registered (srv ?s) \<and>
           fst (attempt emptyStore (emit EvLock ?s)) = Some ''runtime error: index out of range''"
    by code_simp
  have r: "fst (register [emptyStore, emptyStore, emptyStore] ?s) = ReturnRegistered"
    by code_simp
  from fault_contained[of emptyStore ?s "''runtime error: index out of range''"
      "[emptyStore, emptyStore]"] h
  have "fst (iteration emptyStore ?s) = Continue \<and>
        register [emptyStore, emptyStore, emptyStore] ?s
          = register [emptyStore, emptyStore] (snd (iteration emptyStore ?s))"
    by blast
  with h r show ?thesis by blast
qed

section \<open>Properties of the storage facade\<close>

lemma delegate_result:
  "delegate f s = (fst (f (cluster s)), s\<lparr>cluster := snd (f (cluster s))\<rparr>)"
  by (simp add: delegate_def split: prod.splits)

lemma cold_simps:
  "mutex (facade (coldFacade c)) = None" "cls (facade (coldFacade c)) = c"
  "name (facade (coldFacade c)) = ''mesh''" "cluster (coldFacade c) = 0"
  by (simp_all add: coldFacade_def)

lemma cluster_simps:
  "clsMutex flaky nm c = (if c = 0 then (None, Some ''etcd is not ready'') else (Some okMutex, None), Suc c)"
  "clsMutex down nm c = ((None, Some ''etcd is not ready''), Suc c)"
  "clsMutex steady nm c = ((Some okMutex, None), Suc c)"
  by (simp_all add: flaky_def down_def steady_def)

text \<open>
  With a cluster that keeps its contract (a mutex or an error, never neither), \<open>Lock\<close> and
  \<open>Unlock\<close> never call a method of a \<open>nil\<close> mutex.
\<close>

lemma Lock_no_nil_call:
  assumes "\<And>nm c0. fst (fst (clsMutex (cls (facade s)) nm c0)) \<noteq> None
                    \<or> snd (fst (clsMutex (cls (facade s)) nm c0)) \<noteq> None"
  shows "fst (Lock s) \<noteq> Panics p \<and> fst (Unlock s) \<noteq> Panics p"
  using assms[of "name (facade s)" "cluster s"]
  by (auto simp: Lock_def Unlock_def mutexGoReady_def split: prod.splits option.splits)

text \<open>
  C9, as the code has it. \<open>New\<close> already tries to create the mutex, and keeps it when the
  cluster gives one; \<open>Lock\<close> and \<open>Unlock\<close> try again as long as there is none. A mutex
  that exists is reused, with no call of the cluster to create one. When creation fails
  in \<open>Lock\<close> or \<open>Unlock\<close> the error is returned to the caller and no mutex is kept, so
  the next call tries again; when creation succeeds the mutex is kept and used.
\<close>

theorem mutex_created_once:
  "(mutex (facade s) = Some m \<longrightarrow>
      mutexGoReady s = (None, s) \<and>
      Lock s = (Returns (fst (mutexLock m (cluster s))), s\<lparr>cluster := snd (mutexLock m (cluster s))\<rparr>) \<and>
      Unlock s = (Returns (fst (mutexUnlock m (cluster s))),
                  s\<lparr>cluster := snd (mutexUnlock m (cluster s))\<rparr>)) \<and>
   (mutex (facade s) = None \<and>
    clsMutex (cls (facade s)) (name (facade s)) (cluster s) = ((m', Some err), c1) \<longrightarrow>
      Lock s = (Returns (Some (''create mutex for '' @ name (facade s) @ '' failed: '' @ err)),
                s\<lparr>cluster := c1\<rparr>) \<and>
      Unlock s = (Returns (Some (''create mutex for '' @ name (facade s) @ '' failed: '' @ err)),
                  s\<lparr>cluster := c1\<rparr>) \<and>
      mutex (facade (snd (Lock s))) = None \<and> mutex (facade (snd (Unlock s))) = None) \<and>
   (mutex (facade s) = None \<and>
    clsMutex (cls (facade s)) (name (facade s)) (cluster s) = ((Some m, None), c1) \<longrightarrow>
      mutex (facade (snd (Lock s))) = Some m \<and> fst (Lock s) = Returns (fst (mutexLock m c1)) \<and>
      mutex (facade (snd (Unlock s))) = Some m \<and> fst (Unlock s) = Returns (fst (mutexUnlock m c1))) \<and>
   mutex (facade (New nm c c0)) =
     (case snd (fst (clsMutex c nm c0)) of None \<Rightarrow> fst (fst (clsMutex c nm c0)) | Some err \<Rightarrow> None) \<and>
   cluster (New nm c c0) = snd (clsMutex c nm c0)"
  by (auto simp: Lock_def Unlock_def New_def mutexGoReady_def Let_def
      split: prod.splits option.splits)

theorem mutex_created_once_witness:
  "mutex (facade (New ''mesh'' steady 0)) = Some okMutex \<and>
   mutexGoReady (New ''mesh'' steady 0) = (None, New ''mesh'' steady 0) \<and>
   mutex (facade (coldFacade flaky)) = None \<and>
   clsMutex flaky ''mesh'' 0 = ((None, Some ''etcd is not ready''), 1) \<and>
   Lock (coldFacade flaky)
     = (Returns (Some ''create mutex for mesh failed: etcd is not ready''),
        (coldFacade flaky)\<lparr>cluster := 1\<rparr>) \<and>
   mutex (facade ((coldFacade flaky)\<lparr>cluster := 1\<rparr>)) = None \<and>
   clsMutex flaky ''mesh'' 1 = ((Some okMutex, None), 2) \<and>
   mutex (facade (snd (Lock ((coldFacade flaky)\<lparr>cluster := 1\<rparr>)))) = Some okMutex \<and>
   fst (Lock ((coldFacade flaky)\<lparr>cluster := 1\<rparr>)) = Returns None"
proof -
  have a: "mutex (facade (New ''mesh'' steady 0)) = Some okMutex"
    by (simp add: New_def mutexGoReady_def steady_def Let_def)
  have b: "mutex (facade (coldFacade flaky)) = None \<and>
           clsMutex (cls (facade (coldFacade flaky))) (name (facade (coldFacade flaky)))
             (cluster (coldFacade flaky)) = ((None, Some ''etcd is not ready''), 1)"
    by (simp add: cold_simps cluster_simps)
  let ?s = "(coldFacade flaky)\<lparr>cluster := 1\<rparr>"
  have c: "mutex (facade ?s) = None \<and>
           clsMutex (cls (facade ?s)) (name (facade ?s)) (cluster ?s) = ((Some okMutex, None), 2)"
    by (simp add: cold_simps cluster_simps)
  show ?thesis
    using mutex_created_once[of "New ''mesh'' steady 0" okMutex _ _ _ "''mesh''" steady 0] a
      mutex_created_once[of "coldFacade flaky" _ None "''etcd is not ready''" 1 "''mesh''" steady 0] b
      mutex_created_once[of ?s okMutex _ _ 2 "''mesh''" steady 0] c
    by (simp add: cold_simps cluster_simps okMutex_def)
qed

text \<open>
  C9, as the claim has it, fails: the mutex is not created on first use only. With a
  cluster that gives a mutex, the facade holds it as soon as \<open>New\<close> returns, before any
  \<open>Lock\<close> or \<open>Unlock\<close>, and the cluster has been asked for it once.
\<close>

theorem mutex_created_in_New:
  "mutex (facade (New ''mesh'' steady 0)) = Some okMutex \<and> cluster (New ''mesh'' steady 0) = 1"
  by (simp add: New_def mutexGoReady_def steady_def Let_def)

text \<open>
  C10. \<open>New\<close> always builds the facade, with the name and the cluster it is given. When
  creating the mutex fails, the error goes to the log only; every data method of that
  facade gives what the cluster gives and changes the state of the cluster only; and
  \<open>Lock\<close> and \<open>Unlock\<close> return the error of the creation they try again.
\<close>

theorem New_never_fails:
  "name (facade (New nm c c0)) = nm \<and> cls (facade (New nm c c0)) = c \<and>
   (clsMutex c nm c0 = ((m, Some err), c1) \<longrightarrow>
      New nm c c0 = \<lparr>facade = \<lparr>name = nm, cls = c, mutex = None\<rparr>, cluster = c1,
                     errlog = [''create mutex for '' @ nm @ '' failed: '' @ err]\<rparr> \<and>
      (let s = New nm c c0 in
         Get key s = (fst (clsGet c key c1), s\<lparr>cluster := snd (clsGet c key c1)\<rparr>) \<and>
         GetPrefix key s = (fst (clsGetPrefix c key c1), s\<lparr>cluster := snd (clsGetPrefix c key c1)\<rparr>) \<and>
         GetRaw key s = (fst (clsGetRaw c key c1), s\<lparr>cluster := snd (clsGetRaw c key c1)\<rparr>) \<and>
         GetRawPrefix key s
           = (fst (clsGetRawPrefix c key c1), s\<lparr>cluster := snd (clsGetRawPrefix c key c1)\<rparr>) \<and>
         Put key v s = (fst (clsPut c key v c1), s\<lparr>cluster := snd (clsPut c key v c1)\<rparr>) \<and>
         PutUnderLease key v s
           = (fst (clsPutUnderLease c key v c1), s\<lparr>cluster := snd (clsPutUnderLease c key v c1)\<rparr>) \<and>
         PutAndDelete kvs s
           = (fst (clsPutAndDelete c kvs c1), s\<lparr>cluster := snd (clsPutAndDelete c kvs c1)\<rparr>) \<and>
         PutAndDeleteUnderLease kvs s
           = (fst (clsPutAndDeleteUnderLease c kvs c1),
              s\<lparr>cluster := snd (clsPutAndDeleteUnderLease c kvs c1)\<rparr>) \<and>
         Delete key s = (fst (clsDelete c key c1), s\<lparr>cluster := snd (clsDelete c key c1)\<rparr>) \<and>
         DeletePrefix key s
           = (fst (clsDeletePrefix c key c1), s\<lparr>cluster := snd (clsDeletePrefix c key c1)\<rparr>) \<and>
         Syncer s = (fst (clsSyncer c Minute c1), s\<lparr>cluster := snd (clsSyncer c Minute c1)\<rparr>) \<and>
         (clsMutex c nm c1 = ((m', Some err'), c2) \<longrightarrow>
            Lock s = (Returns (Some (''create mutex for '' @ nm @ '' failed: '' @ err')),
                      s\<lparr>cluster := c2\<rparr>) \<and>
            Unlock s = (Returns (Some (''create mutex for '' @ nm @ '' failed: '' @ err')),
                        s\<lparr>cluster := c2\<rparr>))))"
proof -
  have n: "name (facade (New nm c c0)) = nm \<and> cls (facade (New nm c c0)) = c"
    by (simp add: New_def mutexGoReady_def Let_def split: prod.splits option.splits)
  have f: "New nm c c0 = \<lparr>facade = \<lparr>name = nm, cls = c, mutex = None\<rparr>, cluster = c1,
                     errlog = [''create mutex for '' @ nm @ '' failed: '' @ err]\<rparr>"
    if "clsMutex c nm c0 = ((m, Some err), c1)"
    using that by (simp add: New_def mutexGoReady_def Let_def)
  show ?thesis
    using n f
    by (simp add: Let_def Get_def GetPrefix_def GetRaw_def GetRawPrefix_def Put_def
        PutUnderLease_def PutAndDelete_def PutAndDeleteUnderLease_def Delete_def
        DeletePrefix_def Syncer_def delegate_result Lock_def Unlock_def mutexGoReady_def)
qed

theorem New_never_fails_witness:
  "clsMutex down ''mesh'' 0 = ((None, Some ''etcd is not ready''), 1) \<and>
   clsMutex down ''mesh'' 1 = ((None, Some ''etcd is not ready''), 2) \<and>
   errlog (New ''mesh'' down 0) = [''create mutex for mesh failed: etcd is not ready''] \<and>
   fst (Get ''k'' (New ''mesh'' down 0)) = (Some ''v'', None) \<and>
   fst (Put ''k'' ''v'' (New ''mesh'' down 0)) = None \<and>
   fst (Lock (New ''mesh'' down 0))
     = Returns (Some ''create mutex for mesh failed: etcd is not ready'')"
proof -
  let ?s = "New ''mesh'' down 0"
  have a: "clsMutex down ''mesh'' 0 = ((None, Some ''etcd is not ready''), 1)"
    and b: "clsMutex down ''mesh'' 1 = ((None, Some ''etcd is not ready''), 2)"
    by (simp_all add: cluster_simps)
  have g: "fst (clsGet down ''k'' n) = (Some ''v'', None)" "fst (clsPut down ''k'' ''v'' n) = None"
    for n by (simp_all add: down_def steady_def)
  note t = New_never_fails[of "''mesh''" down 0 None "''etcd is not ready''" 1 "''k''" "''v''" "[]"
        None "''etcd is not ready''" 2, unfolded Let_def]
  from t a have "?s = \<lparr>facade = \<lparr>name = ''mesh'', cls = down, mutex = None\<rparr>, cluster = 1,
                     errlog = [''create mutex for '' @ ''mesh'' @ '' failed: '' @ ''etcd is not ready'']\<rparr>"
    by blast
  then have 1: "errlog ?s = [''create mutex for mesh failed: etcd is not ready'']"
    by simp
  from t a have "Get ''k'' ?s = (fst (clsGet down ''k'' 1), ?s\<lparr>cluster := snd (clsGet down ''k'' 1)\<rparr>)"
    by blast
  then have 2: "fst (Get ''k'' ?s) = (Some ''v'', None)"
    by (simp add: g)
  from t a have "Put ''k'' ''v'' ?s
      = (fst (clsPut down ''k'' ''v'' 1), ?s\<lparr>cluster := snd (clsPut down ''k'' ''v'' 1)\<rparr>)"
    by blast
  then have 3: "fst (Put ''k'' ''v'' ?s) = None"
    by (simp add: g)
  from t a b have "Lock ?s
      = (Returns (Some (''create mutex for '' @ ''mesh'' @ '' failed: '' @ ''etcd is not ready'')),
         ?s\<lparr>cluster := 2\<rparr>)"
    by blast
  then have 4: "fst (Lock ?s) = Returns (Some ''create mutex for mesh failed: etcd is not ready'')"
    by simp
  from a b 1 2 3 4 show ?thesis by blast
qed

end
